theory Spec2Isabelle
  imports Main
begin

section \<open>Data model of \<^verbatim>\<open>base.go\<close>\<close>

text \<open>
  The two field-name constants of the package.
\<close>

definition FieldHelmStatusOutput :: string where
  "FieldHelmStatusOutput = ''status''"

definition FieldHelmOptionsInput :: string where
  "FieldHelmOptionsInput = ''helmOptions''"

text \<open>
  A Go \<^verbatim>\<open>interface{}\<close> as it is stored under a key of a values map: nil, a scalar, a
  slice, a map or a struct, the last two as the list of their keys or fields with the
  value of each.
\<close>

datatype val =
    VNil
  | VBool bool
  | VInt int
  | VString string
  | VList "val list"
  | VMap "(string \<times> val) list"
  | VStruct "(string \<times> val) list"

text \<open>
  A Go map with string keys is a partial function. Where the source tells a nil map from
  an allocated one (\<^verbatim>\<open>args.Values == nil\<close>), the field is an \<open>option\<close> of a map and
  \<open>None\<close> is the nil map.
\<close>

type_synonym valmap = "string \<rightharpoonup> val"

text \<open>
  \<^verbatim>\<open>pulumi.AssetOrArchive\<close>: file-like assets and archives, each named by its path, text
  or URI.
\<close>

datatype AssetOrArchive =
    FileAsset string
  | StringAsset string
  | RemoteAsset string
  | FileArchive string
  | RemoteArchive string

text \<open>
  \<^verbatim>\<open>helmv3.ReleaseStatus\<close>, the status of a deployed release. It is carried by the
  configuration record and never read by this package.
\<close>

record ReleaseStatus =
  AppVersion :: "string option"
  StatusChart :: "string option"
  StatusName :: "string option"
  StatusNamespace :: "string option"
  Revision :: "int option"
  StatusText :: string
  StatusVersion :: "string option"

text \<open>
  The argument shape of the underlying release resource, \<^verbatim>\<open>helmv3.RepositoryOptsArgs\<close>
  and \<^verbatim>\<open>helmv3.ReleaseArgs\<close>, restricted to the fields that \<^verbatim>\<open>To\<close> fills in. A
  \<^verbatim>\<open>pulumi.BoolPtrInput\<close>, \<^verbatim>\<open>pulumi.IntPtrInput\<close> or \<^verbatim>\<open>pulumi.StringPtrInput\<close> is
  an interface value: \<open>None\<close> is the nil interface (the field is unset), \<open>Some v\<close> is
  \<^verbatim>\<open>pulumi.BoolPtr(v)\<close> and its siblings. Go's \<^verbatim>\<open>int\<close> is only copied, never computed
  with, so it is an \<open>int\<close> here.
\<close>

record RepositoryOptsArgs =
  CaFile :: "string option"
  CertFile :: "string option"
  KeyFile :: "string option"
  Password :: "string option"
  Repo :: "string option"
  Username :: "string option"

record ReleaseArgs =
  Atomic :: "bool option"
  Chart :: string
  CleanupOnFail :: "bool option"
  CreateNamespace :: "bool option"
  DependencyUpdate :: "bool option"
  Description :: "string option"
  Devel :: "bool option"
  DisableCRDHooks :: "bool option"
  DisableOpenapiValidation :: "bool option"
  DisableWebhooks :: "bool option"
  ForceUpdate :: "bool option"
  Keyring :: "string option"
  Lint :: "bool option"
  Manifest :: valmap
  MaxHistory :: "int option"
  Name :: "string option"
  Namespace :: "string option"
  Postrender :: "string option"
  RecreatePods :: "bool option"
  RenderSubchartNotes :: "bool option"
  Replace :: "bool option"
  RepositoryOpts :: RepositoryOptsArgs
  ResetValues :: "bool option"
  ResourceNames :: "string \<rightharpoonup> string list"
  ReuseValues :: "bool option"
  SkipAwait :: "bool option"
  SkipCrds :: "bool option"
  Timeout :: "int option"
  ValueYamlFiles :: "AssetOrArchive list"
  Values :: valmap
  Verify :: "bool option"
  Version :: "string option"
  WaitForJobs :: "bool option"

text \<open>
  \<^verbatim>\<open>helmv3.RepositoryOpts\<close> and \<^verbatim>\<open>ReleaseType\<close>, the configuration record. A Go
  pointer field (\<^verbatim>\<open>*bool\<close>, \<^verbatim>\<open>*int\<close>, \<^verbatim>\<open>*string\<close>) is an \<open>option\<close>: \<open>None\<close> is
  nil. \<^verbatim>\<open>Chart\<close> is a plain \<^verbatim>\<open>string\<close>, whose unset state is the empty string. A nil
  slice and an empty slice are both the empty list.
\<close>

record RepositoryOpts =
  CaFile :: "string option"
  CertFile :: "string option"
  KeyFile :: "string option"
  Password :: "string option"
  Repo :: "string option"
  Username :: "string option"

record ReleaseType =
  Atomic :: "bool option"
  Chart :: string
  CleanupOnFail :: "bool option"
  CreateNamespace :: "bool option"
  DependencyUpdate :: "bool option"
  Description :: "string option"
  Devel :: "bool option"
  DisableCRDHooks :: "bool option"
  DisableOpenapiValidation :: "bool option"
  DisableWebhooks :: "bool option"
  ForceUpdate :: "bool option"
  Keyring :: "string option"
  Lint :: "bool option"
  Manifest :: "valmap option"
  MaxHistory :: "int option"
  Name :: "string option"
  Namespace :: "string option"
  Postrender :: "string option"
  RecreatePods :: "bool option"
  RenderSubchartNotes :: "bool option"
  Replace :: "bool option"
  RepositoryOpts :: RepositoryOpts
  ResetValues :: "bool option"
  ResourceNames :: "(string \<rightharpoonup> string list) option"
  ReuseValues :: "bool option"
  SkipAwait :: "bool option"
  SkipCrds :: "bool option"
  Status :: ReleaseStatus
  Timeout :: "int option"
  ValueYamlFiles :: "AssetOrArchive list"
  Values :: "valmap option"
  Verify :: "bool option"
  Version :: "string option"
  WaitForJobs :: "bool option"

text \<open>
  The zero value \<^verbatim>\<open>&ReleaseType{}\<close> that \<^verbatim>\<open>Construct\<close> allocates when the caller gave
  no configuration record.
\<close>

definition ReleaseStatus_zero :: ReleaseStatus where
  "ReleaseStatus_zero =
     \<lparr>AppVersion = None, StatusChart = None, StatusName = None, StatusNamespace = None,
      Revision = None, StatusText = [], StatusVersion = None\<rparr>"

definition RepositoryOpts_zero :: RepositoryOpts where
  "RepositoryOpts_zero =
     \<lparr>CaFile = None, CertFile = None, KeyFile = None, Password = None, Repo = None,
      Username = None\<rparr>"

definition ReleaseType_zero :: ReleaseType where
  "ReleaseType_zero =
     \<lparr>Atomic = None, Chart = [], CleanupOnFail = None, CreateNamespace = None,
      DependencyUpdate = None, Description = None, Devel = None, DisableCRDHooks = None,
      DisableOpenapiValidation = None, DisableWebhooks = None, ForceUpdate = None,
      Keyring = None, Lint = None, Manifest = None, MaxHistory = None, Name = None,
      Namespace = None, Postrender = None, RecreatePods = None,
      RenderSubchartNotes = None, Replace = None, RepositoryOpts = RepositoryOpts_zero,
      ResetValues = None, ResourceNames = None, ReuseValues = None, SkipAwait = None,
      SkipCrds = None, Status = ReleaseStatus_zero, Timeout = None, ValueYamlFiles = [],
      Values = None, Verify = None, Version = None, WaitForJobs = None\<rparr>"

section \<open>The decoder that \<^verbatim>\<open>InitDefaults\<close> calls\<close>

text \<open>
  \<^verbatim>\<open>mapstructure\<close> is a library outside this repository; what follows is a model of the
  part of it that \<^verbatim>\<open>InitDefaults\<close> runs, a decoder whose \<^verbatim>\<open>Result\<close> is a pointer to a
  \<^verbatim>\<open>map[string]interface{}\<close>, with no decode hook, \<^verbatim>\<open>ZeroFields\<close> and
  \<^verbatim>\<open>WeaklyTypedInput\<close> off.

  The \<^verbatim>\<open>values\<close> argument of \<^verbatim>\<open>InitDefaults\<close> is an \<^verbatim>\<open>interface{}\<close>. The decoder
  looks through one pointer and then goes by the kind of what it finds:
  \<^item> \<open>PNil\<close>: the nil interface or a nil pointer;
  \<^item> \<open>PNilMap\<close>: a nil map of type \<^verbatim>\<open>map[string]interface{}\<close> (or of a type assignable
    to it); \<open>PNilMapOther\<close>: a nil map of any other map type;
  \<^item> \<open>PMap\<close>: an allocated map, given by its entries;
  \<^item> \<open>PStruct\<close>: a struct, given by the fields that the decoder visits, in declaration
    order (it passes over unexported fields, fields tagged \<^verbatim>\<open>pulumi:"-"\<close> and empty
    \<^verbatim>\<open>omitempty\<close> fields; the fields of a squashed struct stand in its place);
  \<^item> \<open>POther\<close>: a value of any other kind, with the name of the kind.

  An entry or field is an \<open>item\<close>. \<open>Entry k v\<close> is one that the decoder writes: \<open>k\<close> is
  the key (the map key, or the name that the \<^verbatim>\<open>pulumi:"x"\<close> tag gives the field, or the
  field's own name without a tag) and \<open>v\<close> the value it stores under the key, which is the
  entry's or field's value, but for a field of struct kind the map that the decoder
  converts the struct into. \<open>Reject e\<close> is one that the decoder refuses with the error
  \<open>e\<close>: a map entry whose key is not a string, a field marked squash that is not a
  struct, a struct field whose conversion fails.
\<close>

datatype item =
    Entry string val
  | Reject string

datatype payload =
    PNil
  | PNilMap
  | PNilMapOther
  | PMap "item list"
  | PStruct "item list"
  | POther string

datatype decode_target = PtrToValues | NotAPointer

record DecoderConfig =
  Result :: decode_target
  TagName :: string

text \<open>
  The errors that the decoder returns, and the two ways in which a call of
  \<^verbatim>\<open>InitDefaults\<close> can end in a panic: \<^verbatim>\<open>panic(err)\<close> with an error of the decoder, or
  a run-time panic raised inside the decoder by \<^verbatim>\<open>reflect\<close>.
\<close>

datatype mapstructure_error =
    ResultMustBePointer
  | ExpectedMap string
  | FieldError string
  | EntryErrors "string list"

datatype decode_failure =
    Err mapstructure_error
  | ReflectPanic string

datatype fault =
    Panic mapstructure_error
  | RuntimePanic string

definition NewDecoder :: "DecoderConfig \<Rightarrow> mapstructure_error + DecoderConfig" where
  "NewDecoder config =
     (if Result config = PtrToValues then Inr config else Inl ResultMustBePointer)"

definition write_entries :: "valmap \<Rightarrow> (string \<times> val) list \<Rightarrow> valmap" where
  "write_entries m es = foldl (\<lambda>acc (k, v). acc(k \<mapsto> v)) m es"

text \<open>
  \<^verbatim>\<open>decodeMap\<close> writes onto the target map itself, or onto a new map when the target is
  nil.
\<close>

definition target_map :: "valmap option \<Rightarrow> valmap" where
  "target_map target = (case target of None \<Rightarrow> Map.empty | Some m \<Rightarrow> m)"

text \<open>
  A map payload: every entry is tried; the ones that decode are written, the errors of the
  others are collected and returned after the target has been set to the map written to.
\<close>

fun entries_of :: "item list \<Rightarrow> (string \<times> val) list" where
  "entries_of [] = []"
| "entries_of (Entry k v # items) = (k, v) # entries_of items"
| "entries_of (Reject e # items) = entries_of items"

fun rejects_of :: "item list \<Rightarrow> string list" where
  "rejects_of [] = []"
| "rejects_of (Entry k v # items) = rejects_of items"
| "rejects_of (Reject e # items) = e # rejects_of items"

definition decodeMapFromMap ::
  "item list \<Rightarrow> valmap option \<Rightarrow> decode_failure \<times> valmap option + valmap option" where
  "decodeMapFromMap items target =
     (let valMap = write_entries (target_map target) (entries_of items);
          errors = rejects_of items
      in if errors = [] then Inr (Some valMap) else Inl (Err (EntryErrors errors), Some valMap))"

text \<open>
  A struct payload: the fields are written in order and the first error ends the call at
  once. The writes made before it are on the target map if there was one; a new map that
  stood in for a nil target is dropped.
\<close>

fun before_reject :: "item list \<Rightarrow> (string \<times> val) list \<times> string option" where
  "before_reject [] = ([], None)"
| "before_reject (Entry k v # items) =
     (case before_reject items of (es, r) \<Rightarrow> ((k, v) # es, r))"
| "before_reject (Reject e # items) = ([], Some e)"

definition decodeMapFromStruct ::
  "item list \<Rightarrow> valmap option \<Rightarrow> decode_failure \<times> valmap option + valmap option" where
  "decodeMapFromStruct items target =
     (case before_reject items of
        (es, None) \<Rightarrow> Inr (Some (write_entries (target_map target) es))
      | (es, Some e) \<Rightarrow>
          Inl (Err (FieldError e),
               (case target of None \<Rightarrow> None | Some m \<Rightarrow> Some (write_entries m es))))"

text \<open>
  \<^verbatim>\<open>Decode\<close>. A nil input leaves the target alone. A nil map makes the target the nil
  map too, by \<^verbatim>\<open>reflect\<close>'s \<^verbatim>\<open>Set\<close>, which panics when the nil map is of a type that
  cannot be assigned to the target; a target that is nil already is not touched.
\<close>

fun Decode ::
  "DecoderConfig \<Rightarrow> payload \<Rightarrow> valmap option \<Rightarrow> decode_failure \<times> valmap option + valmap option"
where
  "Decode d PNil target = Inr target"
| "Decode d PNilMap target = Inr None"
| "Decode d PNilMapOther target =
     (case target of
        None \<Rightarrow> Inr None
      | Some m \<Rightarrow> Inl (ReflectPanic ''reflect.Set: value is not assignable'', Some m))"
| "Decode d (PMap items) target = decodeMapFromMap items target"
| "Decode d (PStruct items) target = decodeMapFromStruct items target"
| "Decode d (POther kind) target = Inl (Err (ExpectedMap kind), target)"

section \<open>\<^verbatim>\<open>InitDefaults\<close>\<close>

text \<open>
  Go's \<^verbatim>\<open>delete(m, k)\<close> and \<^verbatim>\<open>m[k]\<close> on a map variable: both are defined on a nil map,
  where \<^verbatim>\<open>delete\<close> does nothing and a lookup finds no entry.
\<close>

definition delete :: "valmap option \<Rightarrow> string \<Rightarrow> valmap option" where
  "delete vs k = (case vs of None \<Rightarrow> None | Some m \<Rightarrow> Some (m(k := None)))"

definition index :: "valmap option \<Rightarrow> string \<Rightarrow> val option" where
  "index vs k = (case vs of None \<Rightarrow> None | Some m \<Rightarrow> m k)"

text \<open>
  \<^verbatim>\<open>InitDefaults\<close> mutates the record behind \<^verbatim>\<open>args\<close> and returns nothing; the model
  returns the record as it is when the call returns, or the panic that ends the call
  together with the record as the panic finds it. The values map is written in place by
  the decoder, so that the record holds what the decoder has written when it fails.
\<close>

definition InitDefaults ::
  "ReleaseType \<Rightarrow> string \<Rightarrow> string \<Rightarrow> payload \<Rightarrow> fault \<times> ReleaseType + ReleaseType"
where
  "InitDefaults args chart repo values =
     (let args1 = (if Chart args = [] then args\<lparr>Chart := chart\<rparr> else args);
          args2 = (if Repo (RepositoryOpts args1) = None
                   then args1\<lparr>RepositoryOpts := (RepositoryOpts args1)\<lparr>Repo := Some repo\<rparr>\<rparr>
                   else args1);
          args3 = (if Values args2 = None then args2\<lparr>Values := Some Map.empty\<rparr> else args2)
      in case NewDecoder \<lparr>Result = PtrToValues, TagName = ''pulumi''\<rparr> of
           Inl err \<Rightarrow> Inl (Panic err, args3)
         | Inr d \<Rightarrow>
             (case Decode d values (Values args3) of
                Inl (Err err, vs) \<Rightarrow> Inl (Panic err, args3\<lparr>Values := vs\<rparr>)
              | Inl (ReflectPanic msg, vs) \<Rightarrow> Inl (RuntimePanic msg, args3\<lparr>Values := vs\<rparr>)
              | Inr vs \<Rightarrow> Inr (args3\<lparr>Values := delete vs FieldHelmOptionsInput\<rparr>)))"

section \<open>Shape conversion\<close>

definition toBoolPtr :: "bool option \<Rightarrow> bool option" where
  "toBoolPtr p = (case p of None \<Rightarrow> None | Some b \<Rightarrow> Some b)"

definition toIntPtr :: "int option \<Rightarrow> int option" where
  "toIntPtr p = (case p of None \<Rightarrow> None | Some i \<Rightarrow> Some i)"

definition toStringPtr :: "string option \<Rightarrow> string option" where
  "toStringPtr p = (case p of None \<Rightarrow> None | Some s \<Rightarrow> Some s)"

text \<open>
  The loop that would copy the assets is commented out in the source: the result is the
  declared variable, still empty.
\<close>

definition toAssetOrArchiveArray :: "AssetOrArchive list \<Rightarrow> AssetOrArchive list" where
  "toAssetOrArchiveArray a = (let res = [] in res)"

text \<open>
  \<^verbatim>\<open>pulumi.ToMap\<close> and \<^verbatim>\<open>pulumi.ToStringArrayMap\<close> allocate a map and copy every entry
  of the argument into it; a nil argument gives the empty map.
\<close>

definition ToMap :: "valmap option \<Rightarrow> valmap" where
  "ToMap vs = (case vs of None \<Rightarrow> Map.empty | Some m \<Rightarrow> m)"

definition ToStringArrayMap :: "(string \<rightharpoonup> string list) option \<Rightarrow> (string \<rightharpoonup> string list)" where
  "ToStringArrayMap vs = (case vs of None \<Rightarrow> Map.empty | Some m \<Rightarrow> m)"

definition To :: "ReleaseType \<Rightarrow> ReleaseArgs" where
  "To args =
     \<lparr>ReleaseArgs.Atomic = toBoolPtr (Atomic args),
      ReleaseArgs.Chart = Chart args,
      ReleaseArgs.CleanupOnFail = toBoolPtr (CleanupOnFail args),
      ReleaseArgs.CreateNamespace = toBoolPtr (CreateNamespace args),
      ReleaseArgs.DependencyUpdate = toBoolPtr (DependencyUpdate args),
      ReleaseArgs.Description = toStringPtr (Description args),
      ReleaseArgs.Devel = toBoolPtr (Devel args),
      ReleaseArgs.DisableCRDHooks = toBoolPtr (DisableCRDHooks args),
      ReleaseArgs.DisableOpenapiValidation = toBoolPtr (DisableOpenapiValidation args),
      ReleaseArgs.DisableWebhooks = toBoolPtr (DisableWebhooks args),
      ReleaseArgs.ForceUpdate = toBoolPtr (ForceUpdate args),
      ReleaseArgs.Keyring = toStringPtr (Keyring args),
      ReleaseArgs.Lint = toBoolPtr (Lint args),
      ReleaseArgs.Manifest = ToMap (Manifest args),
      ReleaseArgs.MaxHistory = toIntPtr (MaxHistory args),
      ReleaseArgs.Name = toStringPtr (Name args),
      ReleaseArgs.Namespace = toStringPtr (Namespace args),
      ReleaseArgs.Postrender = toStringPtr (Postrender args),
      ReleaseArgs.RecreatePods = toBoolPtr (RecreatePods args),
      ReleaseArgs.RenderSubchartNotes = toBoolPtr (RenderSubchartNotes args),
      ReleaseArgs.Replace = toBoolPtr (Replace args),
      ReleaseArgs.RepositoryOpts =
        \<lparr>RepositoryOptsArgs.CaFile = toStringPtr (CaFile (RepositoryOpts args)),
         RepositoryOptsArgs.CertFile = toStringPtr (CertFile (RepositoryOpts args)),
         RepositoryOptsArgs.KeyFile = toStringPtr (KeyFile (RepositoryOpts args)),
         RepositoryOptsArgs.Password = toStringPtr (Password (RepositoryOpts args)),
         RepositoryOptsArgs.Repo = toStringPtr (Repo (RepositoryOpts args)),
         RepositoryOptsArgs.Username = toStringPtr (Username (RepositoryOpts args))\<rparr>,
      ReleaseArgs.ResetValues = toBoolPtr (ResetValues args),
      ReleaseArgs.ResourceNames = ToStringArrayMap (ResourceNames args),
      ReleaseArgs.ReuseValues = toBoolPtr (ReuseValues args),
      ReleaseArgs.SkipAwait = toBoolPtr (SkipAwait args),
      ReleaseArgs.SkipCrds = toBoolPtr (SkipCrds args),
      ReleaseArgs.Timeout = toIntPtr (Timeout args),
      ReleaseArgs.ValueYamlFiles = toAssetOrArchiveArray (ValueYamlFiles args),
      ReleaseArgs.Values = ToMap (Values args),
      ReleaseArgs.Verify = toBoolPtr (Verify args),
      ReleaseArgs.Version = toStringPtr (Version args),
      ReleaseArgs.WaitForJobs = toBoolPtr (WaitForJobs args)\<rparr>"

section \<open>\<^verbatim>\<open>Construct\<close>\<close>

text \<open>
  The component \<^verbatim>\<open>c\<close> behind the \<^verbatim>\<open>Chart\<close> interface: the three values its methods
  return and the status that \<^verbatim>\<open>SetOutputs\<close> stores in it.
\<close>

record Chart =
  Type :: string
  DefaultChartName :: string
  DefaultRepoURL :: string
  Outputs :: "ReleaseStatus option"

text \<open>
  The argument struct behind the \<^verbatim>\<open>ChartArgs\<close> interface. Each chart declares its own;
  \<^verbatim>\<open>Construct\<close> uses two things of it: the configuration record that \<^verbatim>\<open>R()\<close> points
  at (\<open>None\<close> when that pointer is nil) and the struct itself as the payload of
  \<^verbatim>\<open>InitDefaults\<close>.
\<close>

record ChartArgs =
  R :: "ReleaseType option"
  Payload :: payload

text \<open>
  The calls that reach the orchestration engine, in the order they are made, and the
  answers of the collaborators: \<^verbatim>\<open>inputs.CopyTo\<close>, the two registration calls of
  \<^verbatim>\<open>ctx\<close>, \<^verbatim>\<open>helmv3.NewRelease\<close> and \<^verbatim>\<open>provider.NewConstructResult\<close>. An answer
  \<open>Some err\<close> or \<open>Inl err\<close> is the error the collaborator returns.
\<close>

datatype ResourceOption = ResourceOption string

datatype call =
    RegisterComponentResourceCall string string ResourceOption
  | NewReleaseCall string ReleaseArgs string
  | RegisterResourceOutputsCall string string

record Engine =
  CopyTo :: "ChartArgs \<Rightarrow> string option \<times> ChartArgs"
  RegisterComponentResource :: "string \<Rightarrow> string \<Rightarrow> ResourceOption \<Rightarrow> string option"
  NewRelease :: "string \<Rightarrow> ReleaseArgs \<Rightarrow> string + ReleaseStatus"
  RegisterResourceOutputs :: "string \<Rightarrow> string \<Rightarrow> string option"
  NewConstructResult :: "Chart \<Rightarrow> string option"

datatype error =
    UnknownResourceType string string
  | SettingArgs string
  | Upstream string

datatype outcome =
    Panicked fault
  | Failed error
  | Constructed Chart

text \<open>
  What a call of \<^verbatim>\<open>Construct\<close> can change: the calls received by the engine, the
  component and the argument struct. The steps of \<^verbatim>\<open>Construct\<close> follow the source from
  the last to the first, each one continuing with the next.
\<close>

record World =
  Calls :: "call list"
  Component :: Chart
  Args :: ChartArgs

definition register_outputs :: "Engine \<Rightarrow> World \<Rightarrow> string \<Rightarrow> ReleaseStatus \<Rightarrow> outcome \<times> World" where
  "register_outputs eng w name status =
     (let c = (Component w)\<lparr>Outputs := Some status\<rparr>;
          w' = w\<lparr>Component := c,
                 Calls := Calls w @
                   [RegisterResourceOutputsCall FieldHelmStatusOutput (name @ ''-helm'')]\<rparr>
      in case RegisterResourceOutputs eng FieldHelmStatusOutput (name @ ''-helm'') of
           Some err \<Rightarrow> (Failed (Upstream err), w')
         | None \<Rightarrow>
             (case NewConstructResult eng c of
                Some err \<Rightarrow> (Failed (Upstream err), w')
              | None \<Rightarrow> (Constructed c, w')))"

definition create_release :: "Engine \<Rightarrow> World \<Rightarrow> string \<Rightarrow> outcome \<times> World" where
  "create_release eng w name =
     (let c = Component w;
          args = Args w;
          relArgs = (case R args of None \<Rightarrow> ReleaseType_zero | Some r \<Rightarrow> r)
      in case InitDefaults relArgs (DefaultChartName c) (DefaultRepoURL c) (Payload args) of
           Inl (p, rel) \<Rightarrow> (Panicked p, w\<lparr>Args := args\<lparr>R := Some rel\<rparr>\<rparr>)
         | Inr rel \<Rightarrow>
             (let w' = w\<lparr>Args := args\<lparr>R := Some rel\<rparr>,
                         Calls := Calls w @ [NewReleaseCall (name @ ''-helm'') (To rel) name]\<rparr>
              in case NewRelease eng (name @ ''-helm'') (To rel) of
                   Inl err \<Rightarrow> (Failed (Upstream err), w')
                 | Inr status \<Rightarrow> register_outputs eng w' name status))"

definition Construct :: "Engine \<Rightarrow> World \<Rightarrow> string \<Rightarrow> string \<Rightarrow> ResourceOption \<Rightarrow> outcome \<times> World" where
  "Construct eng w typ name opts =
     (let et = Type (Component w) in
      if typ \<noteq> et then (Failed (UnknownResourceType typ et), w)
      else
        (case CopyTo eng (Args w) of
           (Some err, args) \<Rightarrow> (Failed (SettingArgs err), w\<lparr>Args := args\<rparr>)
         | (None, args) \<Rightarrow>
             (let w' = w\<lparr>Args := args,
                         Calls := Calls w @ [RegisterComponentResourceCall typ name opts]\<rparr>
              in case RegisterComponentResource eng typ name opts of
                   Some err \<Rightarrow> (Failed (Upstream err), w')
                 | None \<Rightarrow> create_release eng w' name)))"

section \<open>Example inputs\<close>

text \<open>
  Records to run \<^verbatim>\<open>InitDefaults\<close> on: the zero record after defaulting to the nginx chart
  with a given values map, and a record whose chart, repository URL and \<^verbatim>\<open>Atomic\<close> flag
  the user has set.
\<close>

definition charts_repo :: string where
  "charts_repo = ''https://charts.example.com''"

definition defaulted :: "string \<Rightarrow> valmap \<Rightarrow> ReleaseType" where
  "defaulted chart m =
     ReleaseType_zero\<lparr>Chart := chart,
       RepositoryOpts := RepositoryOpts_zero\<lparr>Repo := Some charts_repo\<rparr>,
       Values := Some m\<rparr>"

definition redis_preset :: ReleaseType where
  "redis_preset =
     ReleaseType_zero\<lparr>Chart := ''redis'', Atomic := Some True,
       RepositoryOpts := RepositoryOpts_zero\<lparr>Repo := Some ''https://mirror.example.org''\<rparr>\<rparr>"

definition with_values :: "valmap \<Rightarrow> ReleaseType" where
  "with_values m = ReleaseType_zero\<lparr>Values := Some m\<rparr>"

text \<open>
  A component, an engine and a world to run \<^verbatim>\<open>Construct\<close> on: the component of an nginx
  chart, collaborators that all succeed, and the state before the first call, with an
  argument struct that holds no configuration record yet.
\<close>

definition deployed :: ReleaseStatus where
  "deployed = ReleaseStatus_zero\<lparr>StatusText := ''deployed''\<rparr>"

definition nginx_component :: Chart where
  "nginx_component =
     \<lparr>Type = ''charts:index:Nginx'', DefaultChartName = ''nginx'',
      DefaultRepoURL = charts_repo, Outputs = None\<rparr>"

definition accepting_engine :: Engine where
  "accepting_engine =
     \<lparr>CopyTo = (\<lambda>args. (None, args)),
      RegisterComponentResource = (\<lambda>typ name opts. None),
      NewRelease = (\<lambda>name args. Inr deployed),
      RegisterResourceOutputs = (\<lambda>key name. None),
      NewConstructResult = (\<lambda>c. None)\<rparr>"

definition nginx_world :: World where
  "nginx_world = \<lparr>Calls = [], Component = nginx_component, Args = \<lparr>R = None, Payload = PNil\<rparr>\<rparr>"

section \<open>Properties of \<^verbatim>\<open>InitDefaults\<close>\<close>

subsection \<open>Auxiliary facts\<close>

text \<open>
  Writing entries onto a map: a key that the entries mention ends with the value they
  give it (the same value as when they are written onto the empty map), and any other key
  keeps what the map held.
\<close>

lemma write_entries_at:
  "write_entries m es k =
     (case write_entries Map.empty es k of Some v \<Rightarrow> Some v | None \<Rightarrow> m k)"
proof (induction es arbitrary: m rule: rev_induct)
  case Nil
  show ?case by (simp add: write_entries_def)
next
  case (snoc e es)
  obtain k' v' where e: "e = (k', v')" by (cases e)
  have step: "\<And>m0. write_entries m0 (es @ [e]) = (write_entries m0 es)(k' \<mapsto> v')"
    by (simp add: write_entries_def e)
  show ?case
  proof (cases "k = k'")
    case True
    then show ?thesis by (simp add: step)
  next
    case False
    then show ?thesis using snoc.IH [of m] by (simp add: step)
  qed
qed

lemma NewDecoder_values:
  "NewDecoder \<lparr>Result = PtrToValues, TagName = t\<rparr> = Inr \<lparr>Result = PtrToValues, TagName = t\<rparr>"
  by (simp add: NewDecoder_def)

text \<open>
  Which error the decoder returns depends on the payload alone, not on the target map; and
  so does whether it accepts the payload, for a target that is not nil.
\<close>

lemma Decode_Err_any_target:
  "Decode d values target = Inl (Err err, vs) \<Longrightarrow>
   \<exists>vs'. Decode d' values target' = Inl (Err err, vs')"
  by (cases "values")
    (auto simp: decodeMapFromMap_def decodeMapFromStruct_def Let_def
      split: if_splits option.splits prod.splits)

lemma Decode_ok_any_target:
  "Decode d values (Some m) = Inr vs \<Longrightarrow> \<exists>vs'. Decode d' values (Some m') = Inr vs'"
  by (cases "values")
    (auto simp: decodeMapFromMap_def decodeMapFromStruct_def Let_def
      split: if_splits option.splits prod.splits)

text \<open>
  An accepted payload that is not a nil map, decoded onto a map: a key that decoding the
  payload alone produces ends with the payload's value, any other key keeps what the map
  held.
\<close>

lemma Decode_onto:
  assumes onto: "Decode d values (Some m) = Inr vs"
    and alone: "Decode d' values None = Inr decoded"
    and notnil: "values \<noteq> PNilMap"
  shows "index vs k = (case index decoded k of Some v \<Rightarrow> Some v | None \<Rightarrow> m k)"
proof (cases "values")
  case PNil
  with onto alone show ?thesis by (auto simp: index_def)
next
  case PNilMap
  with notnil show ?thesis by simp
next
  case PNilMapOther
  with onto show ?thesis by simp
next
  case (PMap items)
  with onto alone show ?thesis
    using write_entries_at [of m "entries_of items" k]
    by (auto simp: decodeMapFromMap_def target_map_def index_def Let_def split: if_splits)
next
  case (PStruct items)
  obtain es r where br: "before_reject items = (es, r)" by (cases "before_reject items")
  with PStruct onto alone show ?thesis
    using write_entries_at [of m es k]
    by (auto simp: decodeMapFromStruct_def target_map_def index_def split: option.splits)
next
  case (POther kind)
  with onto show ?thesis by simp
qed

text \<open>
  What a returning call leaves behind, in one equation: the record it was given with the
  chart, the repository URL and the values map replaced.
\<close>

lemma InitDefaults_Inr:
  assumes "InitDefaults args chart repo values = Inr args'"
  shows "\<exists>vs. Decode \<lparr>Result = PtrToValues, TagName = ''pulumi''\<rparr> values
              (Some (case Values args of None \<Rightarrow> Map.empty | Some m \<Rightarrow> m)) = Inr vs
         \<and> args' = args\<lparr>Chart := (if Chart args = [] then chart else Chart args),
                        RepositoryOpts := (RepositoryOpts args)\<lparr>Repo :=
                          (case Repo (RepositoryOpts args) of
                             None \<Rightarrow> Some repo | Some r \<Rightarrow> Some r)\<rparr>,
                        Values := delete vs FieldHelmOptionsInput\<rparr>"
  using assms
  by (auto simp: InitDefaults_def NewDecoder_values Let_def
      split: sum.splits option.splits if_splits prod.splits decode_failure.splits)

text \<open>
  The call returns whenever the decoder accepts the payload: the properties below, stated
  for a returning call, are about every payload that is nil, a nil map of the values map's
  type, or a map or a struct of which the decoder refuses no entry or field.
\<close>

lemma InitDefaults_returns:
  assumes "Decode d values (Some m) = Inr vs"
  shows "\<exists>args'. InitDefaults args chart repo values = Inr args'"
proof -
  let ?d = "\<lparr>Result = PtrToValues, TagName = ''pulumi''\<rparr>"
  let ?m = "case Values args of None \<Rightarrow> Map.empty | Some m \<Rightarrow> m"
  obtain vs' where "Decode ?d values (Some ?m) = Inr vs'"
    using Decode_ok_any_target [OF assms] by blast
  then show ?thesis
    by (auto simp: InitDefaults_def NewDecoder_values Let_def split: option.splits)
qed

text \<open>
  Runs of \<^verbatim>\<open>InitDefaults\<close>, evaluated: a struct payload that sets the reserved key, onto
  a values map that holds it too; a nil payload on the zero record; a nil payload on a
  record whose chart and repository URL are set; a struct payload onto a values map that
  shares one key with it; a nil payload onto a values map that holds the reserved key; an
  empty default chart identifier.
\<close>

lemma run_struct_payload:
  "InitDefaults (with_values [''helmOptions'' \<mapsto> VString ''old'']) ''nginx'' charts_repo
     (PStruct [Entry ''replicas'' (VInt 3), Entry ''helmOptions'' (VString ''new'')])
   = Inr (defaulted ''nginx'' [''replicas'' \<mapsto> VInt 3])"
  by (simp add: InitDefaults_def NewDecoder_def ReleaseType_zero_def RepositoryOpts_zero_def
      defaulted_def redis_preset_def with_values_def charts_repo_def
      decodeMapFromMap_def decodeMapFromStruct_def target_map_def write_entries_def
      delete_def FieldHelmOptionsInput_def fun_eq_iff)

lemma run_nil_payload:
  "InitDefaults ReleaseType_zero ''nginx'' charts_repo PNil
   = Inr (defaulted ''nginx'' Map.empty)"
  by (simp add: InitDefaults_def NewDecoder_def ReleaseType_zero_def RepositoryOpts_zero_def
      defaulted_def redis_preset_def with_values_def charts_repo_def
      decodeMapFromMap_def decodeMapFromStruct_def target_map_def write_entries_def
      delete_def FieldHelmOptionsInput_def fun_eq_iff)

lemma run_preset:
  "InitDefaults redis_preset ''nginx'' charts_repo PNil
   = Inr (redis_preset\<lparr>Values := Some Map.empty\<rparr>)"
  by (simp add: InitDefaults_def NewDecoder_def ReleaseType_zero_def RepositoryOpts_zero_def
      defaulted_def redis_preset_def with_values_def charts_repo_def
      decodeMapFromMap_def decodeMapFromStruct_def target_map_def write_entries_def
      delete_def FieldHelmOptionsInput_def fun_eq_iff)

lemma run_overlap:
  "InitDefaults (with_values [''replicas'' \<mapsto> VInt 1, ''image'' \<mapsto> VString ''nginx:1''])
     ''nginx'' charts_repo (PStruct [Entry ''replicas'' (VInt 3)])
   = Inr (defaulted ''nginx'' [''replicas'' \<mapsto> VInt 3, ''image'' \<mapsto> VString ''nginx:1''])"
  by (simp add: InitDefaults_def NewDecoder_def ReleaseType_zero_def RepositoryOpts_zero_def
      defaulted_def redis_preset_def with_values_def charts_repo_def
      decodeMapFromMap_def decodeMapFromStruct_def target_map_def write_entries_def
      delete_def FieldHelmOptionsInput_def fun_eq_iff)

lemma run_reserved_kept_out:
  "InitDefaults (with_values [''helmOptions'' \<mapsto> VString ''old'']) ''nginx'' charts_repo PNil
   = Inr (defaulted ''nginx'' Map.empty)"
  by (simp add: InitDefaults_def NewDecoder_def ReleaseType_zero_def RepositoryOpts_zero_def
      defaulted_def redis_preset_def with_values_def charts_repo_def
      decodeMapFromMap_def decodeMapFromStruct_def target_map_def write_entries_def
      delete_def FieldHelmOptionsInput_def fun_eq_iff)

lemma run_empty_default:
  "InitDefaults ReleaseType_zero [] charts_repo PNil = Inr (defaulted [] Map.empty)"
  by (simp add: InitDefaults_def NewDecoder_def ReleaseType_zero_def RepositoryOpts_zero_def
      defaulted_def redis_preset_def with_values_def charts_repo_def
      decodeMapFromMap_def decodeMapFromStruct_def target_map_def write_entries_def
      delete_def FieldHelmOptionsInput_def fun_eq_iff)

text \<open>
  Three more runs, on the payloads that the decoder treats apart. A nil map of the values
  map's type: the call returns and the values map of the record is nil, its entries gone.
  A nil map of another type: \<^verbatim>\<open>reflect\<close> panics inside the decoder. A struct with a field
  that the decoder refuses: the call panics with the decoder's error, and the values map
  holds the fields written before.
\<close>

lemma run_nil_map_payload:
  "InitDefaults (with_values [''image'' \<mapsto> VString ''nginx:1'']) ''nginx'' charts_repo PNilMap
   = Inr ((defaulted ''nginx'' Map.empty)\<lparr>Values := None\<rparr>)"
  by (simp add: InitDefaults_def NewDecoder_def ReleaseType_zero_def RepositoryOpts_zero_def
      defaulted_def redis_preset_def with_values_def charts_repo_def
      decodeMapFromMap_def decodeMapFromStruct_def target_map_def write_entries_def
      delete_def FieldHelmOptionsInput_def fun_eq_iff)

lemma run_nil_map_other_payload:
  "InitDefaults (with_values [''image'' \<mapsto> VString ''nginx:1'']) ''nginx'' charts_repo
     PNilMapOther
   = Inl (RuntimePanic ''reflect.Set: value is not assignable'',
          defaulted ''nginx'' [''image'' \<mapsto> VString ''nginx:1''])"
  by (simp add: InitDefaults_def NewDecoder_def ReleaseType_zero_def RepositoryOpts_zero_def
      defaulted_def redis_preset_def with_values_def charts_repo_def
      decodeMapFromMap_def decodeMapFromStruct_def target_map_def write_entries_def
      delete_def FieldHelmOptionsInput_def fun_eq_iff)

lemma run_struct_rejected:
  "InitDefaults ReleaseType_zero ''nginx'' charts_repo
     (PStruct [Entry ''replicas'' (VInt 3), Reject ''cannot squash non-struct type'',
               Entry ''image'' (VString ''nginx:1'')])
   = Inl (Panic (FieldError ''cannot squash non-struct type''),
          defaulted ''nginx'' [''replicas'' \<mapsto> VInt 3])"
  by (simp add: InitDefaults_def NewDecoder_def ReleaseType_zero_def RepositoryOpts_zero_def
      defaulted_def redis_preset_def with_values_def charts_repo_def
      decodeMapFromMap_def decodeMapFromStruct_def target_map_def write_entries_def
      delete_def FieldHelmOptionsInput_def fun_eq_iff)

subsection \<open>The reserved key\<close>

text \<open>
  C1. Whatever the configuration record and the payload are, also when the payload or the
  pre-existing values map sets the reserved key \<^verbatim>\<open>helmOptions\<close>, the values map of the
  record that \<^verbatim>\<open>InitDefaults\<close> leaves behind has no entry for that key.
\<close>

theorem InitDefaults_deletes_helmOptions:
  "InitDefaults args chart repo values = Inr args' \<Longrightarrow>
   index (Values args') FieldHelmOptionsInput = None"
  by (auto dest!: InitDefaults_Inr simp: index_def delete_def split: option.splits)

theorem InitDefaults_deletes_helmOptions_witness:
  "InitDefaults (with_values [''helmOptions'' \<mapsto> VString ''old'']) ''nginx'' charts_repo
     (PStruct [Entry ''replicas'' (VInt 3), Entry ''helmOptions'' (VString ''new'')])
   = Inr (defaulted ''nginx'' [''replicas'' \<mapsto> VInt 3])
   \<and> index (Values (defaulted ''nginx'' [''replicas'' \<mapsto> VInt 3])) FieldHelmOptionsInput
     = None"
  using run_struct_payload InitDefaults_deletes_helmOptions [OF run_struct_payload]
  by simp

subsection \<open>Defaults of the chart and of the repository URL\<close>

text \<open>
  C2. When the chart field of the record is unset (the empty string), \<^verbatim>\<open>InitDefaults\<close>
  sets it to the default chart identifier; when it is set, the call keeps it.
\<close>

theorem InitDefaults_chart_default:
  "InitDefaults args chart repo values = Inr args' \<Longrightarrow>
   Chart args' = (if Chart args = [] then chart else Chart args)"
  by (auto dest!: InitDefaults_Inr)

theorem InitDefaults_chart_default_witness:
  "InitDefaults ReleaseType_zero ''nginx'' charts_repo PNil
     = Inr (defaulted ''nginx'' Map.empty)
   \<and> Chart ReleaseType_zero = []
   \<and> Chart (defaulted ''nginx'' Map.empty) = ''nginx''
   \<and> InitDefaults redis_preset ''nginx'' charts_repo PNil
     = Inr (redis_preset\<lparr>Values := Some Map.empty\<rparr>)
   \<and> Chart redis_preset = ''redis''
   \<and> Chart (redis_preset\<lparr>Values := Some Map.empty\<rparr>) = ''redis''"
  using run_nil_payload InitDefaults_chart_default [OF run_nil_payload]
    run_preset InitDefaults_chart_default [OF run_preset]
  by (simp add: ReleaseType_zero_def redis_preset_def)

text \<open>
  C3. When the repository URL of the record is unset (a nil pointer), \<^verbatim>\<open>InitDefaults\<close>
  sets it to the default repository URL; when it is set, the call keeps it.
\<close>

theorem InitDefaults_repo_default:
  "InitDefaults args chart repo values = Inr args' \<Longrightarrow>
   Repo (RepositoryOpts args') =
     (case Repo (RepositoryOpts args) of None \<Rightarrow> Some repo | Some r \<Rightarrow> Some r)"
  by (auto dest!: InitDefaults_Inr)

theorem InitDefaults_repo_default_witness:
  "InitDefaults ReleaseType_zero ''nginx'' charts_repo PNil
     = Inr (defaulted ''nginx'' Map.empty)
   \<and> Repo (RepositoryOpts ReleaseType_zero) = None
   \<and> Repo (RepositoryOpts (defaulted ''nginx'' Map.empty)) = Some charts_repo
   \<and> InitDefaults redis_preset ''nginx'' charts_repo PNil
     = Inr (redis_preset\<lparr>Values := Some Map.empty\<rparr>)
   \<and> Repo (RepositoryOpts redis_preset) = Some ''https://mirror.example.org''
   \<and> Repo (RepositoryOpts (redis_preset\<lparr>Values := Some Map.empty\<rparr>))
     = Some ''https://mirror.example.org''"
  using run_nil_payload InitDefaults_repo_default [OF run_nil_payload]
    run_preset InitDefaults_repo_default [OF run_preset]
  by (simp add: ReleaseType_zero_def RepositoryOpts_zero_def redis_preset_def)

subsection \<open>Payload entries and pre-existing entries\<close>

text \<open>
  C4, as stated, fails at the reserved key. With \<^verbatim>\<open>helmOptions\<close> both in the pre-existing
  values map and among the fields of the payload, the final map does not hold the
  payload's value for it; with \<^verbatim>\<open>helmOptions\<close> in the pre-existing map and a payload
  that introduces no key, the key does not keep its value. In both runs the final map has
  no entry for it.
\<close>

theorem InitDefaults_payload_wins_counterexample:
  "index (Values (with_values [''helmOptions'' \<mapsto> VString ''old''])) ''helmOptions''
     = Some (VString ''old'')
   \<and> Decode \<lparr>Result = PtrToValues, TagName = ''pulumi''\<rparr>
       (PStruct [Entry ''replicas'' (VInt 3), Entry ''helmOptions'' (VString ''new'')]) None
     = Inr (Some [''replicas'' \<mapsto> VInt 3, ''helmOptions'' \<mapsto> VString ''new''])
   \<and> index (Some [''replicas'' \<mapsto> VInt 3, ''helmOptions'' \<mapsto> VString ''new'']) ''helmOptions''
     = Some (VString ''new'')
   \<and> InitDefaults (with_values [''helmOptions'' \<mapsto> VString ''old'']) ''nginx'' charts_repo
       (PStruct [Entry ''replicas'' (VInt 3), Entry ''helmOptions'' (VString ''new'')])
     = Inr (defaulted ''nginx'' [''replicas'' \<mapsto> VInt 3])
   \<and> index (Values (defaulted ''nginx'' [''replicas'' \<mapsto> VInt 3])) ''helmOptions'' = None
   \<and> InitDefaults (with_values [''helmOptions'' \<mapsto> VString ''old'']) ''nginx'' charts_repo PNil
     = Inr (defaulted ''nginx'' Map.empty)
   \<and> index (Values (defaulted ''nginx'' Map.empty)) ''helmOptions'' = None"
  using run_struct_payload run_reserved_kept_out
  by (simp add: index_def decodeMapFromStruct_def target_map_def write_entries_def
      with_values_def defaulted_def)

text \<open>
  C4, amended. For every payload that is not a nil map and every key other than the
  reserved key \<^verbatim>\<open>helmOptions\<close>: when decoding the payload produces the key, the values
  map after \<^verbatim>\<open>InitDefaults\<close> holds the decoded payload's value for it, whatever the
  pre-existing map held; when decoding the payload does not produce the key, the key keeps
  its pre-existing value (or stays absent). The reserved key is absent from the final map.
  The decoded payload is what the decoder writes into a nil map.
\<close>

theorem InitDefaults_payload_wins:
  assumes run: "InitDefaults args chart repo values = Inr args'"
    and notnil: "values \<noteq> PNilMap"
    and dec: "Decode d values None = Inr decoded"
    and k: "k \<noteq> FieldHelmOptionsInput"
  shows "index (Values args') k =
           (case index decoded k of Some v \<Rightarrow> Some v | None \<Rightarrow> index (Values args) k)
         \<and> index (Values args') FieldHelmOptionsInput = None"
proof -
  let ?m = "case Values args of None \<Rightarrow> Map.empty | Some m \<Rightarrow> m"
  from InitDefaults_Inr [OF run] obtain vs where
    vs: "Decode \<lparr>Result = PtrToValues, TagName = ''pulumi''\<rparr> values (Some ?m) = Inr vs"
    and args': "Values args' = delete vs FieldHelmOptionsInput"
    by auto
  have pre: "index (Values args) k = ?m k"
    by (simp add: index_def split: option.splits)
  have "index vs k = (case index decoded k of Some v \<Rightarrow> Some v | None \<Rightarrow> ?m k)"
    using Decode_onto [OF vs dec notnil] .
  moreover have "index (Values args') k = index vs k"
    using k by (simp add: args' index_def delete_def split: option.splits)
  moreover have "index (Values args') FieldHelmOptionsInput = None"
    by (simp add: args' index_def delete_def split: option.splits)
  ultimately show ?thesis unfolding pre by simp
qed

theorem InitDefaults_payload_wins_witness:
  "InitDefaults (with_values [''replicas'' \<mapsto> VInt 1, ''image'' \<mapsto> VString ''nginx:1''])
     ''nginx'' charts_repo (PStruct [Entry ''replicas'' (VInt 3)])
     = Inr (defaulted ''nginx'' [''replicas'' \<mapsto> VInt 3, ''image'' \<mapsto> VString ''nginx:1''])
   \<and> PStruct [Entry ''replicas'' (VInt 3)] \<noteq> PNilMap
   \<and> Decode \<lparr>Result = PtrToValues, TagName = ''pulumi''\<rparr> (PStruct [Entry ''replicas'' (VInt 3)]) None
     = Inr (Some [''replicas'' \<mapsto> VInt 3])
   \<and> ''replicas'' \<noteq> FieldHelmOptionsInput
   \<and> ''image'' \<noteq> FieldHelmOptionsInput
   \<and> index (Values (with_values [''replicas'' \<mapsto> VInt 1, ''image'' \<mapsto> VString ''nginx:1'']))
       ''replicas''
     = Some (VInt 1)
   \<and> index (Values (defaulted ''nginx''
         [''replicas'' \<mapsto> VInt 3, ''image'' \<mapsto> VString ''nginx:1''])) ''replicas''
     = Some (VInt 3)
   \<and> index (Values (defaulted ''nginx''
         [''replicas'' \<mapsto> VInt 3, ''image'' \<mapsto> VString ''nginx:1''])) ''image''
     = Some (VString ''nginx:1'')
   \<and> index (Values (defaulted ''nginx''
         [''replicas'' \<mapsto> VInt 3, ''image'' \<mapsto> VString ''nginx:1''])) FieldHelmOptionsInput
     = None"
proof -
  have notnil: "PStruct [Entry ''replicas'' (VInt 3)] \<noteq> PNilMap"
    by simp
  have dec: "Decode \<lparr>Result = PtrToValues, TagName = ''pulumi''\<rparr> (PStruct [Entry ''replicas'' (VInt 3)]) None
      = Inr (Some [''replicas'' \<mapsto> VInt 3])"
    by (simp add: decodeMapFromStruct_def target_map_def write_entries_def)
  have k1: "''replicas'' \<noteq> FieldHelmOptionsInput" and k2: "''image'' \<noteq> FieldHelmOptionsInput"
    by (simp_all add: FieldHelmOptionsInput_def)
  show ?thesis
    using run_overlap notnil dec k1 k2
      InitDefaults_payload_wins [OF run_overlap notnil dec k1]
      InitDefaults_payload_wins [OF run_overlap notnil dec k2]
    by (simp add: index_def with_values_def defaulted_def)
qed

subsection \<open>Chart and repository URL after the call\<close>

text \<open>
  C5, as stated, fails for an empty default chart identifier: on the zero record the chart
  field is still the empty string, that is unset, when the call returns.
\<close>

theorem InitDefaults_empty_default_chart_counterexample:
  "Chart ReleaseType_zero = []
   \<and> InitDefaults ReleaseType_zero [] charts_repo PNil = Inr (defaulted [] Map.empty)
   \<and> Chart (defaulted [] Map.empty) = []"
  using run_empty_default by (simp add: ReleaseType_zero_def defaulted_def)

text \<open>
  C5, amended. After \<^verbatim>\<open>InitDefaults\<close> returns, the repository URL of the record is set
  (not nil), and the chart field is set (not the empty string) unless both the chart field
  before the call and the default chart identifier were empty.
\<close>

theorem InitDefaults_chart_and_repo_set:
  "InitDefaults args chart repo values = Inr args' \<Longrightarrow>
   Repo (RepositoryOpts args') \<noteq> None
   \<and> (Chart args' = [] \<longleftrightarrow> Chart args = [] \<and> chart = [])"
  by (auto dest!: InitDefaults_Inr split: option.splits if_splits)

theorem InitDefaults_chart_and_repo_set_witness:
  "InitDefaults ReleaseType_zero ''nginx'' charts_repo PNil
     = Inr (defaulted ''nginx'' Map.empty)
   \<and> Repo (RepositoryOpts (defaulted ''nginx'' Map.empty)) \<noteq> None
   \<and> Chart (defaulted ''nginx'' Map.empty) \<noteq> []"
  using run_nil_payload InitDefaults_chart_and_repo_set [OF run_nil_payload]
  by simp

subsection \<open>Decoding failure\<close>

text \<open>
  C9. When decoding the values payload fails, \<^verbatim>\<open>InitDefaults\<close> panics with the decoder's
  error. It has no other way to report it: a call either returns, and then it returns no
  value at all, or panics.
\<close>

theorem InitDefaults_decode_failure_panics:
  assumes "Decode \<lparr>Result = PtrToValues, TagName = ''pulumi''\<rparr> values target = Inl (Err err, vs)"
  shows "\<exists>args'. InitDefaults args chart repo values = Inl (Panic err, args')"
proof -
  let ?d = "\<lparr>Result = PtrToValues, TagName = ''pulumi''\<rparr>"
  let ?t = "Values (if Values args = None then args\<lparr>Values := Some Map.empty\<rparr> else args)"
  obtain vs' where "Decode ?d values ?t = Inl (Err err, vs')"
    using Decode_Err_any_target [OF assms] by blast
  then show ?thesis
    by (auto simp: InitDefaults_def NewDecoder_values Let_def)
qed

theorem InitDefaults_decode_failure_panics_witness:
  "Decode \<lparr>Result = PtrToValues, TagName = ''pulumi''\<rparr> (POther ''string'') None = Inl (Err (ExpectedMap ''string''), None)
   \<and> InitDefaults ReleaseType_zero ''nginx'' charts_repo (POther ''string'')
     = Inl (Panic (ExpectedMap ''string''), defaulted ''nginx'' Map.empty)"
proof -
  have dec: "Decode \<lparr>Result = PtrToValues, TagName = ''pulumi''\<rparr> (POther ''string'') None = Inl (Err (ExpectedMap ''string''), None)"
    by simp
  have "\<exists>args'. InitDefaults ReleaseType_zero ''nginx'' charts_repo (POther ''string'')
      = Inl (Panic (ExpectedMap ''string''), args')"
    using InitDefaults_decode_failure_panics [OF dec] .
  then show ?thesis
    using dec
    by (auto simp: InitDefaults_def NewDecoder_def ReleaseType_zero_def RepositoryOpts_zero_def
        defaulted_def)
qed

subsection \<open>Frame\<close>

text \<open>
  C10. \<^verbatim>\<open>InitDefaults\<close> changes the chart field, the repository URL inside the repository
  options and the values map; every other field of the record, and every other field of
  its repository options, is after the call what it was before.
\<close>

theorem InitDefaults_frame:
  "InitDefaults args chart repo values = Inr args' \<Longrightarrow>
   args' = args\<lparr>Chart := Chart args',
                 RepositoryOpts := (RepositoryOpts args)\<lparr>Repo := Repo (RepositoryOpts args')\<rparr>,
                 Values := Values args'\<rparr>"
  by (auto dest!: InitDefaults_Inr)

theorem InitDefaults_frame_witness:
  "InitDefaults redis_preset ''nginx'' charts_repo PNil
     = Inr (redis_preset\<lparr>Values := Some Map.empty\<rparr>)
   \<and> redis_preset\<lparr>Values := Some Map.empty\<rparr>
     = redis_preset\<lparr>Chart := ''redis'',
         RepositoryOpts := (RepositoryOpts redis_preset)\<lparr>Repo := Some ''https://mirror.example.org''\<rparr>,
         Values := Some Map.empty\<rparr>
   \<and> Atomic (redis_preset\<lparr>Values := Some Map.empty\<rparr>) = Some True"
  using run_preset InitDefaults_frame [OF run_preset]
  by (simp add: redis_preset_def ReleaseType_zero_def RepositoryOpts_zero_def)

section \<open>Properties of \<^verbatim>\<open>To\<close>\<close>

lemma toBoolPtr_id: "toBoolPtr p = p"
  by (simp add: toBoolPtr_def split: option.splits)

lemma toIntPtr_id: "toIntPtr p = p"
  by (simp add: toIntPtr_def split: option.splits)

lemma toStringPtr_id: "toStringPtr p = p"
  by (simp add: toStringPtr_def split: option.splits)

text \<open>
  C6. The file-asset list of the converted arguments is empty, whatever assets the
  configuration record lists: \<^verbatim>\<open>toAssetOrArchiveArray\<close> returns the empty array for every
  argument, and \<^verbatim>\<open>To\<close> fills \<^verbatim>\<open>ValueYamlFiles\<close> with it.
\<close>

theorem To_ValueYamlFiles_empty:
  "toAssetOrArchiveArray a = [] \<and> ReleaseArgs.ValueYamlFiles (To args) = []"
  by (simp add: To_def toAssetOrArchiveArray_def)

text \<open>
  C7. Every optional boolean, integer and string field of the configuration record, and
  every field of its repository options, is converted on its own: the field of the result
  is unset when the field of the record is unset, and holds the same value when it is set.
\<close>

theorem To_optional_scalars:
  "ReleaseArgs.Atomic (To args) = Atomic args
   \<and> ReleaseArgs.CleanupOnFail (To args) = CleanupOnFail args
   \<and> ReleaseArgs.CreateNamespace (To args) = CreateNamespace args
   \<and> ReleaseArgs.DependencyUpdate (To args) = DependencyUpdate args
   \<and> ReleaseArgs.Description (To args) = Description args
   \<and> ReleaseArgs.Devel (To args) = Devel args
   \<and> ReleaseArgs.DisableCRDHooks (To args) = DisableCRDHooks args
   \<and> ReleaseArgs.DisableOpenapiValidation (To args) = DisableOpenapiValidation args
   \<and> ReleaseArgs.DisableWebhooks (To args) = DisableWebhooks args
   \<and> ReleaseArgs.ForceUpdate (To args) = ForceUpdate args
   \<and> ReleaseArgs.Keyring (To args) = Keyring args
   \<and> ReleaseArgs.Lint (To args) = Lint args
   \<and> ReleaseArgs.MaxHistory (To args) = MaxHistory args
   \<and> ReleaseArgs.Name (To args) = Name args
   \<and> ReleaseArgs.Namespace (To args) = Namespace args
   \<and> ReleaseArgs.Postrender (To args) = Postrender args
   \<and> ReleaseArgs.RecreatePods (To args) = RecreatePods args
   \<and> ReleaseArgs.RenderSubchartNotes (To args) = RenderSubchartNotes args
   \<and> ReleaseArgs.Replace (To args) = Replace args
   \<and> RepositoryOptsArgs.CaFile (ReleaseArgs.RepositoryOpts (To args)) = CaFile (RepositoryOpts args)
   \<and> RepositoryOptsArgs.CertFile (ReleaseArgs.RepositoryOpts (To args)) = CertFile (RepositoryOpts args)
   \<and> RepositoryOptsArgs.KeyFile (ReleaseArgs.RepositoryOpts (To args)) = KeyFile (RepositoryOpts args)
   \<and> RepositoryOptsArgs.Password (ReleaseArgs.RepositoryOpts (To args)) = Password (RepositoryOpts args)
   \<and> RepositoryOptsArgs.Repo (ReleaseArgs.RepositoryOpts (To args)) = Repo (RepositoryOpts args)
   \<and> RepositoryOptsArgs.Username (ReleaseArgs.RepositoryOpts (To args)) = Username (RepositoryOpts args)
   \<and> ReleaseArgs.ResetValues (To args) = ResetValues args
   \<and> ReleaseArgs.ReuseValues (To args) = ReuseValues args
   \<and> ReleaseArgs.SkipAwait (To args) = SkipAwait args
   \<and> ReleaseArgs.SkipCrds (To args) = SkipCrds args
   \<and> ReleaseArgs.Timeout (To args) = Timeout args
   \<and> ReleaseArgs.Verify (To args) = Verify args
   \<and> ReleaseArgs.Version (To args) = Version args
   \<and> ReleaseArgs.WaitForJobs (To args) = WaitForJobs args"
  by (simp add: To_def toBoolPtr_id toIntPtr_id toStringPtr_id)

section \<open>Properties of \<^verbatim>\<open>Construct\<close>\<close>

text \<open>
  The scenario of a matching type token and an empty input bag, with collaborators that
  all succeed: the configuration record is allocated and defaulted, the engine receives
  the registration of the component, the creation of the release and the registration of
  the outputs, in this order, and the component is returned with the release's status.
\<close>

lemma Construct_scenario:
  "Construct accepting_engine nginx_world ''charts:index:Nginx'' ''web'' (ResourceOption ''none'')
   = (Constructed (nginx_component\<lparr>Outputs := Some deployed\<rparr>),
      \<lparr>Calls =
         [RegisterComponentResourceCall ''charts:index:Nginx'' ''web'' (ResourceOption ''none''),
          NewReleaseCall ''web-helm''
            (To (defaulted ''nginx'' Map.empty)) ''web'',
          RegisterResourceOutputsCall ''status'' ''web-helm''],
       Component = nginx_component\<lparr>Outputs := Some deployed\<rparr>,
       Args = \<lparr>R = Some (defaulted ''nginx'' Map.empty), Payload = PNil\<rparr>\<rparr>)"
  by (simp add: Construct_def create_release_def register_outputs_def run_nil_payload
      accepting_engine_def nginx_world_def nginx_component_def
      FieldHelmStatusOutput_def Let_def)

text \<open>
  C8. When the requested type token differs from the type that the component declares,
  \<^verbatim>\<open>Construct\<close> returns the type-mismatch error and changes nothing: the engine has
  received no call, so neither the component nor the release is registered, and the
  component and the argument struct are untouched.
\<close>

theorem Construct_type_mismatch:
  "typ \<noteq> Type (Component w) \<Longrightarrow>
   Construct eng w typ name opts = (Failed (UnknownResourceType typ (Type (Component w))), w)
   \<and> Calls (snd (Construct eng w typ name opts)) = Calls w"
  by (simp add: Construct_def Let_def)

theorem Construct_type_mismatch_witness:
  "''charts:index:Redis'' \<noteq> Type (Component nginx_world)
   \<and> Construct accepting_engine nginx_world ''charts:index:Redis'' ''web'' (ResourceOption ''none'')
     = (Failed (UnknownResourceType ''charts:index:Redis'' ''charts:index:Nginx''), nginx_world)
   \<and> Calls (snd (Construct accepting_engine nginx_world ''charts:index:Redis'' ''web''
         (ResourceOption ''none''))) = []"
proof -
  have neq: "''charts:index:Redis'' \<noteq> Type (Component nginx_world)"
    by (simp add: nginx_world_def nginx_component_def)
  show ?thesis
    using neq Construct_type_mismatch [OF neq]
    by (simp add: nginx_world_def nginx_component_def)
qed

end
